theory Spec2Isabelle
  imports Complex_Main
begin

section \<open>The mosaic driver of ginga (\<^verbatim>\<open>ginga/util/mosaic.py\<close>)\<close>

text \<open>
  The module defines two functions, \<^verbatim>\<open>mosaic(logger, itemlist, fov_deg=None)\<close> and
  \<^verbatim>\<open>main(options, args)\<close>. Everything else they touch lives in other modules of the
  package (\<^verbatim>\<open>loader\<close>, \<^verbatim>\<open>wcs\<close>, \<^verbatim>\<open>dp\<close>, \<^verbatim>\<open>AstroImage\<close>) or in the standard library.
  Those collaborators are parameters of the model: a record of functions over a world
  of type \<open>'w\<close> (the objects they create and mutate, and the file system). Python floats
  are modelled by reals; \<^verbatim>\<open>math.fabs\<close> and \<^verbatim>\<open>np.sign\<close> are exact on every finite float.

  An exception is a value of type \<open>exn\<close>; a computation returns \<open>Inl\<close> of the exception
  raised or \<open>Inr\<close> of its value, together with the state reached.
\<close>

subsection \<open>Data\<close>

type_synonym obj = nat
  \<comment> \<open>the identity of an \<^verbatim>\<open>AstroImage\<close> object\<close>

datatype item = Loaded obj | Path string
  \<comment> \<open>\<^verbatim>\<open>isinstance(item, AstroImage.AstroImage)\<close>, or else "assume it is a file"\<close>

datatype exn =
    NameError string
  | IndexError
  | ValueError
  | KeyError string
  | OSError
  | LoadError
  | WcsResolutionError
  | AllocationError
  | OutOfBoundsError
  | OtherError string

datatype level = DEBUG | INFO

text \<open>
  The history of calls made to the collaborators, each with its arguments and what it
  returned. It is kept beside the world so that properties such as "the allocator is
  called once" can be stated; it does not influence the run.
\<close>

datatype ('h, 't) call =
    Load_data string "exn + obj"
  | Load_file string "exn + obj"
  | Get_keywords_list obj "string list" "exn + real list"
  | Get_rotation_and_scale 'h "exn + real \<times> real \<times> real"
  | Create_blank_image real real "real option" real real "real list" "exn + obj"
  | Mosaic_inline obj "obj list" "bool option" "exn + 't"
  | Io_fits_use string "exn + unit"
  | Os_remove string "exn + unit"
  | Save_as_file obj string "exn + unit"

record ('w, 'h, 't) state =
  world :: 'w
  logged :: "(level \<times> string) list"
  calls :: "('h, 't) call list"

record ('w, 'h, 't) env =
  load_data :: "string \<Rightarrow> 'w \<Rightarrow> (exn + obj) \<times> 'w"
  load_file :: "string \<Rightarrow> 'w \<Rightarrow> (exn + obj) \<times> 'w"
  get :: "obj \<Rightarrow> string \<Rightarrow> string \<Rightarrow> 'w \<Rightarrow> string"
  get_keywords_list :: "obj \<Rightarrow> string list \<Rightarrow> 'w \<Rightarrow> exn + real list"
  get_header :: "obj \<Rightarrow> 'w \<Rightarrow> 'h"
  get_rotation_and_scale :: "'h \<Rightarrow> exn + real \<times> real \<times> real"
  create_blank_image ::
    "real \<Rightarrow> real \<Rightarrow> real option \<Rightarrow> real \<Rightarrow> real \<Rightarrow> real list \<Rightarrow> 'w \<Rightarrow> (exn + obj) \<times> 'w"
  mosaic_inline :: "obj \<Rightarrow> obj list \<Rightarrow> bool option \<Rightarrow> 'w \<Rightarrow> (exn + 't) \<times> 'w"
  str :: "'t \<Rightarrow> string"
  fmt_f :: "real \<Rightarrow> string"
  io_fits_use :: "string \<Rightarrow> 'w \<Rightarrow> (exn + unit) \<times> 'w"
  os_remove :: "string \<Rightarrow> 'w \<Rightarrow> (exn + unit) \<times> 'w"
  save_as_file :: "obj \<Rightarrow> string \<Rightarrow> 'w \<Rightarrow> (exn + unit) \<times> 'w"

record options =
  fov :: "real option"
  outfile :: "string option"

subsection \<open>Sequencing with exceptions\<close>

definition ret :: "'a \<Rightarrow> 's \<Rightarrow> (exn + 'a) \<times> 's" where
  "ret a s = (Inr a, s)"

definition raise :: "exn \<Rightarrow> 's \<Rightarrow> (exn + 'a) \<times> 's" where
  "raise e s = (Inl e, s)"

definition andthen ::
  "('s \<Rightarrow> (exn + 'a) \<times> 's) \<Rightarrow> ('a \<Rightarrow> 's \<Rightarrow> (exn + 'b) \<times> 's) \<Rightarrow> 's \<Rightarrow> (exn + 'b) \<times> 's" where
  "andthen m f s = (case m s of (Inl e, s') \<Rightarrow> (Inl e, s') | (Inr a, s') \<Rightarrow> f a s')"

definition logger_info :: "string \<Rightarrow> ('w, 'h, 't) state \<Rightarrow> (exn + unit) \<times> ('w, 'h, 't) state" where
  "logger_info msg s = (Inr (), s\<lparr>logged := logged s @ [(INFO, msg)]\<rparr>)"

definition logger_debug :: "string \<Rightarrow> ('w, 'h, 't) state \<Rightarrow> (exn + unit) \<times> ('w, 'h, 't) state" where
  "logger_debug msg s = (Inr (), s\<lparr>logged := logged s @ [(DEBUG, msg)]\<rparr>)"

definition init :: "'w \<Rightarrow> ('w, 'h, 't) state" where
  "init w = \<lparr>world = w, logged = [], calls = []\<rparr>"

subsection \<open>String formatting\<close>

definition quoted :: "string \<Rightarrow> string" where
  "quoted s = CHR 0x27 # s @ [CHR 0x27]"

fun show_nat :: "nat \<Rightarrow> string" where
  "show_nat n =
     (if n < 10 then [char_of (48 + n)]
      else show_nat (n div 10) @ [char_of (48 + n mod 10)])"

declare show_nat.simps [simp del]

subsection \<open>Names bound in the module\<close>

text \<open>
  The names bound at module level: the imports of lines 13 to 21, the two functions,
  and what the script part under \<^verbatim>\<open>__name__ == "__main__"\<close> binds. A name that is
  neither in this list nor a Python builtin raises \<^verbatim>\<open>NameError\<close> when it is read.
\<close>

definition module_globals :: "string list" where
  "module_globals =
     [''sys'', ''os'', ''math'', ''np'', ''AstroImage'', ''wcs'', ''loader'', ''dp'', ''log'',
      ''mosaic'', ''main'',
      ''ArgumentParser'', ''usage'', ''argprs'', ''options'', ''args'', ''pdb'', ''profile'']"

definition name_bound :: "string \<Rightarrow> bool" where
  "name_bound n = (n \<in> set module_globals)"

subsection \<open>Calls to the collaborators\<close>

definition call_load_data ::
  "('w, 'h, 't) env \<Rightarrow> string \<Rightarrow> ('w, 'h, 't) state \<Rightarrow> (exn + obj) \<times> ('w, 'h, 't) state" where
  "call_load_data env filepath s =
     (case load_data env filepath (world s) of
        (r, w') \<Rightarrow> (r, s\<lparr>world := w', calls := calls s @ [Load_data filepath r]\<rparr>))"

definition call_load_file ::
  "('w, 'h, 't) env \<Rightarrow> string \<Rightarrow> ('w, 'h, 't) state \<Rightarrow> (exn + obj) \<times> ('w, 'h, 't) state" where
  "call_load_file env filepath s =
     (case load_file env filepath (world s) of
        (r, w') \<Rightarrow> (r, s\<lparr>world := w', calls := calls s @ [Load_file filepath r]\<rparr>))"

definition call_get_keywords_list ::
  "('w, 'h, 't) env \<Rightarrow> obj \<Rightarrow> string list \<Rightarrow> ('w, 'h, 't) state \<Rightarrow>
   (exn + real list) \<times> ('w, 'h, 't) state" where
  "call_get_keywords_list env self kwds s =
     (case get_keywords_list env self kwds (world s) of
        r \<Rightarrow> (r, s\<lparr>calls := calls s @ [Get_keywords_list self kwds r]\<rparr>))"

definition call_get_rotation_and_scale ::
  "('w, 'h, 't) env \<Rightarrow> 'h \<Rightarrow> ('w, 'h, 't) state \<Rightarrow> (exn + real \<times> real \<times> real) \<times> ('w, 'h, 't) state" where
  "call_get_rotation_and_scale env header s =
     (case get_rotation_and_scale env header of
        r \<Rightarrow> (r, s\<lparr>calls := calls s @ [Get_rotation_and_scale header r]\<rparr>))"

definition call_create_blank_image ::
  "('w, 'h, 't) env \<Rightarrow> real \<Rightarrow> real \<Rightarrow> real option \<Rightarrow> real \<Rightarrow> real \<Rightarrow> real list \<Rightarrow>
   ('w, 'h, 't) state \<Rightarrow> (exn + obj) \<times> ('w, 'h, 't) state" where
  "call_create_blank_image env ra_deg dec_deg fov_deg px_scale rot_deg cdbase s =
     (case create_blank_image env ra_deg dec_deg fov_deg px_scale rot_deg cdbase (world s) of
        (r, w') \<Rightarrow>
          (r, s\<lparr>world := w',
                calls := calls s @
                  [Create_blank_image ra_deg dec_deg fov_deg px_scale rot_deg cdbase r]\<rparr>))"

definition call_mosaic_inline ::
  "('w, 'h, 't) env \<Rightarrow> obj \<Rightarrow> obj list \<Rightarrow> bool option \<Rightarrow>
   ('w, 'h, 't) state \<Rightarrow> (exn + 't) \<times> ('w, 'h, 't) state" where
  "call_mosaic_inline env self imagelist allow_expand s =
     (case mosaic_inline env self imagelist allow_expand (world s) of
        (r, w') \<Rightarrow>
          (r, s\<lparr>world := w', calls := calls s @ [Mosaic_inline self imagelist allow_expand r]\<rparr>))"

definition call_io_fits_use ::
  "('w, 'h, 't) env \<Rightarrow> string \<Rightarrow> ('w, 'h, 't) state \<Rightarrow> (exn + unit) \<times> ('w, 'h, 't) state" where
  "call_io_fits_use env pkg s =
     (case io_fits_use env pkg (world s) of
        (r, w') \<Rightarrow> (r, s\<lparr>world := w', calls := calls s @ [Io_fits_use pkg r]\<rparr>))"

definition call_os_remove ::
  "('w, 'h, 't) env \<Rightarrow> string \<Rightarrow> ('w, 'h, 't) state \<Rightarrow> (exn + unit) \<times> ('w, 'h, 't) state" where
  "call_os_remove env path s =
     (case os_remove env path (world s) of
        (r, w') \<Rightarrow> (r, s\<lparr>world := w', calls := calls s @ [Os_remove path r]\<rparr>))"

definition call_save_as_file ::
  "('w, 'h, 't) env \<Rightarrow> obj \<Rightarrow> string \<Rightarrow> ('w, 'h, 't) state \<Rightarrow> (exn + unit) \<times> ('w, 'h, 't) state" where
  "call_save_as_file env self path s =
     (case save_as_file env self path (world s) of
        (r, w') \<Rightarrow> (r, s\<lparr>world := w', calls := calls s @ [Save_as_file self path r]\<rparr>))"

subsection \<open>\<^verbatim>\<open>mosaic\<close>, lines 34 to 68: the first item and the canvas\<close>

definition resolve_item0 ::
  "('w, 'h, 't) env \<Rightarrow> item \<Rightarrow> ('w, 'h, 't) state \<Rightarrow> (exn + obj \<times> string) \<times> ('w, 'h, 't) state" where
  "resolve_item0 env item0 =
     (case item0 of
        Loaded image0 \<Rightarrow> (\<lambda>s. ret (image0, get env image0 ''name'' ''image0'' (world s)) s)
      | Path filepath \<Rightarrow>
          andthen (logger_info (''Reading file '' @ quoted filepath @ '' ...'')) (\<lambda>_.
          andthen (call_load_data env filepath) (\<lambda>image0.
          ret (image0, filepath))))"

definition get_crval ::
  "('w, 'h, 't) env \<Rightarrow> obj \<Rightarrow> ('w, 'h, 't) state \<Rightarrow> (exn + real \<times> real) \<times> ('w, 'h, 't) state" where
  "get_crval env image0 =
     andthen (call_get_keywords_list env image0 [''CRVAL1'', ''CRVAL2'']) (\<lambda>vs.
     case vs of
       [ra_deg, dec_deg] \<Rightarrow> ret (ra_deg, dec_deg)
     | _ \<Rightarrow> raise ValueError)"

definition mosaic_item0 ::
  "('w, 'h, 't) env \<Rightarrow> item \<Rightarrow> real option \<Rightarrow> ('w, 'h, 't) state \<Rightarrow> (exn + obj) \<times> ('w, 'h, 't) state" where
  "mosaic_item0 env item0 fov_deg =
     andthen (resolve_item0 env item0) (\<lambda>(image0, name).
     andthen (get_crval env image0) (\<lambda>(ra_deg, dec_deg).
     andthen (\<lambda>s. call_get_rotation_and_scale env (get_header env image0 (world s)) s)
       (\<lambda>(rot_deg, cdelt1, cdelt2).
     andthen (logger_debug (''image0 rot='' @ fmt_f env rot_deg @ '' cdelt1='' @ fmt_f env cdelt1
                             @ '' cdelt2='' @ fmt_f env cdelt2)) (\<lambda>_.
     let px_scale = \<bar>cdelt1\<bar>;
         expand = (fov_deg = None);
         cdbase = [sgn cdelt1, sgn cdelt2]
     in
     andthen (call_create_blank_image env ra_deg dec_deg fov_deg px_scale rot_deg cdbase)
       (\<lambda>img_mosaic.
     andthen (\<lambda>s. call_get_rotation_and_scale env (get_header env img_mosaic (world s)) s)
       (\<lambda>(rot, cdelt1, cdelt2).
     andthen (logger_debug (''mosaic rot='' @ fmt_f env rot @ '' cdelt1='' @ fmt_f env cdelt1
                             @ '' cdelt2='' @ fmt_f env cdelt2)) (\<lambda>_.
     andthen (logger_debug (''Processing '' @ quoted name @ '' ...'')) (\<lambda>_.
     andthen (call_mosaic_inline env img_mosaic [image0] (Some expand)) (\<lambda>tup.
     andthen (logger_debug (''placement '' @ str env tup)) (\<lambda>_.
     ret img_mosaic))))))))))"

subsection \<open>\<^verbatim>\<open>mosaic\<close>, lines 70 to 88: the remaining items\<close>

definition resolve_item ::
  "('w, 'h, 't) env \<Rightarrow> item \<Rightarrow> ('w, 'h, 't) state \<Rightarrow> (exn + obj) \<times> ('w, 'h, 't) state" where
  "resolve_item env item =
     (case item of
        Loaded img \<Rightarrow> ret img
      | Path filepath \<Rightarrow>
          andthen (logger_info (''Reading file '' @ quoted filepath @ '' ...'')) (\<lambda>_.
          if name_bound ''io_fits'' then call_load_file env filepath
          else raise (NameError ''io_fits'')))"

fun mosaic_loop ::
  "('w, 'h, 't) env \<Rightarrow> obj \<Rightarrow> nat \<Rightarrow> item list \<Rightarrow> ('w, 'h, 't) state \<Rightarrow>
   (exn + unit) \<times> ('w, 'h, 't) state" where
  "mosaic_loop env img_mosaic count [] s = ret () s"
| "mosaic_loop env img_mosaic count (item # rest) s =
     andthen (resolve_item env item) (\<lambda>img.
     andthen (\<lambda>s. ret (get env img ''name'' (''image'' @ show_nat count) (world s)) s) (\<lambda>name.
     andthen (logger_debug (''Inlining '' @ quoted name @ '' ...'')) (\<lambda>_.
     andthen (call_mosaic_inline env img_mosaic [img] None) (\<lambda>tup.
     andthen (logger_debug (''placement '' @ str env tup)) (\<lambda>_.
     mosaic_loop env img_mosaic (count + 1) rest))))) s"

definition mosaic ::
  "('w, 'h, 't) env \<Rightarrow> item list \<Rightarrow> real option \<Rightarrow> ('w, 'h, 't) state \<Rightarrow>
   (exn + obj) \<times> ('w, 'h, 't) state" where
  "mosaic env itemlist fov_deg =
     (case itemlist of
        [] \<Rightarrow> raise IndexError
      | item0 # rest \<Rightarrow>
          andthen (mosaic_item0 env item0 fov_deg) (\<lambda>img_mosaic.
          andthen (mosaic_loop env img_mosaic 1 rest) (\<lambda>_.
          andthen (logger_info ''Done.'') (\<lambda>_.
          ret img_mosaic))))"

subsection \<open>\<^verbatim>\<open>main\<close>, lines 91 to 107\<close>

definition remove_ignoring_oserror ::
  "('w, 'h, 't) env \<Rightarrow> string \<Rightarrow> ('w, 'h, 't) state \<Rightarrow> (exn + unit) \<times> ('w, 'h, 't) state" where
  "remove_ignoring_oserror env path s =
     (case call_os_remove env path s of
        (Inl OSError, s') \<Rightarrow> ret () s'
      | (Inl e, s') \<Rightarrow> raise e s'
      | (Inr u, s') \<Rightarrow> ret () s')"

definition main ::
  "('w, 'h, 't) env \<Rightarrow> options \<Rightarrow> item list \<Rightarrow> ('w, 'h, 't) state \<Rightarrow>
   (exn + unit) \<times> ('w, 'h, 't) state" where
  "main env opts args =
     andthen (mosaic env args (fov opts)) (\<lambda>img_mosaic.
     case outfile opts of
       None \<Rightarrow> ret ()
     | Some path \<Rightarrow>
         if path = [] then ret ()
         else if \<not> name_bound ''io_fits'' then raise (NameError ''io_fits'')
         else
           andthen (call_io_fits_use env ''astropy'') (\<lambda>_.
           andthen (logger_info (''Writing output to '' @ quoted path @ ''...'')) (\<lambda>_.
           andthen (remove_ignoring_oserror env path) (\<lambda>_.
           call_save_as_file env img_mosaic path))))"

definition exit_status :: "exn + unit \<Rightarrow> nat" where
  "exit_status r = (case r of Inl e \<Rightarrow> 1 | Inr u \<Rightarrow> 0)"

subsection \<open>Reading the history of calls\<close>

definition failure :: "('h, 't) call \<Rightarrow> exn option" where
  "failure ev =
     (case ev of
        Load_data p r \<Rightarrow> (case r of Inl e \<Rightarrow> Some e | Inr x \<Rightarrow> None)
      | Load_file p r \<Rightarrow> (case r of Inl e \<Rightarrow> Some e | Inr x \<Rightarrow> None)
      | Get_keywords_list i ks r \<Rightarrow> (case r of Inl e \<Rightarrow> Some e | Inr x \<Rightarrow> None)
      | Get_rotation_and_scale h r \<Rightarrow> (case r of Inl e \<Rightarrow> Some e | Inr x \<Rightarrow> None)
      | Create_blank_image ra dec f px rot cb r \<Rightarrow> (case r of Inl e \<Rightarrow> Some e | Inr x \<Rightarrow> None)
      | Mosaic_inline c imgs fl r \<Rightarrow> (case r of Inl e \<Rightarrow> Some e | Inr x \<Rightarrow> None)
      | Io_fits_use p r \<Rightarrow> (case r of Inl e \<Rightarrow> Some e | Inr x \<Rightarrow> None)
      | Os_remove p r \<Rightarrow> (case r of Inl e \<Rightarrow> Some e | Inr x \<Rightarrow> None)
      | Save_as_file c p r \<Rightarrow> (case r of Inl e \<Rightarrow> Some e | Inr x \<Rightarrow> None))"

definition is_create :: "('h, 't) call \<Rightarrow> bool" where
  "is_create ev = (case ev of Create_blank_image ra dec f px rot cb r \<Rightarrow> True | _ \<Rightarrow> False)"

text \<open>The calls of \<^verbatim>\<open>mosaic_inline\<close> in a history: receiver, image list, \<^verbatim>\<open>allow_expand\<close>.\<close>

fun inline_calls :: "('h, 't) call list \<Rightarrow> (obj \<times> obj list \<times> bool option) list" where
  "inline_calls [] = []"
| "inline_calls (Mosaic_inline c imgs fl r # evs) = (c, imgs, fl) # inline_calls evs"
| "inline_calls (ev # evs) = inline_calls evs"

text \<open>The \<^verbatim>\<open>allow_expand\<close> argument of each call of \<^verbatim>\<open>mosaic_inline\<close>, in order;
  \<open>None\<close> where the call passes none.\<close>

definition inline_flags :: "('h, 't) call list \<Rightarrow> bool option list" where
  "inline_flags evs = map (\<lambda>x. snd (snd x)) (inline_calls evs)"

text \<open>What the calls of \<^verbatim>\<open>get_rotation_and_scale\<close> in a history returned, in order.\<close>

fun extractions :: "('h, 't) call list \<Rightarrow> (exn + real \<times> real \<times> real) list" where
  "extractions [] = []"
| "extractions (Get_rotation_and_scale h r # evs) = r # extractions evs"
| "extractions (ev # evs) = extractions evs"

text \<open>
  How lines 34 to 42 resolve item 0 in world \<open>w\<close>: the image \<open>image0\<close>, the world \<open>w1\<close>
  afterwards and the calls \<open>L\<close> this took.
\<close>

definition resolved ::
  "('w, 'h, 't) env \<Rightarrow> item \<Rightarrow> 'w \<Rightarrow> obj \<Rightarrow> 'w \<Rightarrow> ('h, 't) call list \<Rightarrow> bool" where
  "resolved env item0 w image0 w1 L =
     (case item0 of
        Loaded i \<Rightarrow> image0 = i \<and> w1 = w \<and> L = []
      | Path p \<Rightarrow> load_data env p w = (Inr image0, w1) \<and> L = [Load_data p (Inr image0)])"

text \<open>A run of \<open>mosaic\<close> from a fresh state: what it returns and the calls it made.\<close>

definition outcome ::
  "('w, 'h, 't) env \<Rightarrow> item list \<Rightarrow> real option \<Rightarrow> 'w \<Rightarrow> exn + obj" where
  "outcome env itemlist fov_deg w = fst (mosaic env itemlist fov_deg (init w))"

definition history ::
  "('w, 'h, 't) env \<Rightarrow> item list \<Rightarrow> real option \<Rightarrow> 'w \<Rightarrow> ('h, 't) call list" where
  "history env itemlist fov_deg w = calls (snd (mosaic env itemlist fov_deg (init w)))"

text \<open>The calls of a loop that inlined the images \<open>j\<close> with results \<open>t\<close>.\<close>

definition inlined_later :: "obj \<Rightarrow> (obj \<times> 't) list \<Rightarrow> ('h, 't) call list" where
  "inlined_later c jts = map (\<lambda>(j, t). Mosaic_inline c [j] None (Inr t)) jts"

section \<open>The compositor as the specification describes it\<close>

text \<open>
  \<^verbatim>\<open>AstroImage.mosaic_inline\<close> is not part of the sources at hand. The definitions of
  this section follow section 4.3 of the specification. Its steps 1 and 2, the
  sky-to-pixel transform and the resampling, are the WCS primitives the specification
  itself lists as external; they are parameters here.
\<close>

record 'h canvas =
  cv_pixels :: "real list list"
  cv_header :: 'h
  cv_placements :: "(string \<times> (int \<times> int) \<times> bool) list"

record ('h, 'i) wcs_primitives =
  sky_to_pixel :: "'h \<Rightarrow> 'i \<Rightarrow> int \<times> int"
  resample :: "'h \<Rightarrow> 'i \<Rightarrow> real list list"
  shift_reference :: "int \<times> int \<Rightarrow> 'h \<Rightarrow> 'h"
  source_name :: "'i \<Rightarrow> string"

text \<open>Modelled from the spec: the extent of a pixel grid, rows of equal length.\<close>

definition grid_width :: "real list list \<Rightarrow> nat" where
  "grid_width g = (case g of [] \<Rightarrow> 0 | row # rows \<Rightarrow> length row)"

text \<open>
  Modelled from the spec: "any part of the transformed image extent falls outside
  current canvas bounds", negated. The missing part is the bounds test of
  \<^verbatim>\<open>mosaic_inline\<close>.
\<close>

definition fits :: "'h canvas \<Rightarrow> int \<times> int \<Rightarrow> real list list \<Rightarrow> bool" where
  "fits c pos block =
     (case pos of
        (x, y) \<Rightarrow>
          0 \<le> x \<and> 0 \<le> y \<and>
          x + int (grid_width block) \<le> int (grid_width (cv_pixels c)) \<and>
          y + int (length block) \<le> int (length (cv_pixels c)))"

text \<open>
  Modelled from the spec: "grow the canvas (pixel grid is padded with a defined
  background/fill value, e.g. NaN or 0, and the WCS reference-pixel offset is adjusted
  so existing content's sky mapping is unchanged)". The missing part is the expansion
  of \<^verbatim>\<open>mosaic_inline\<close>; the fill value is 0. The result is the grown canvas and the
  position of the image on it.
\<close>

definition grow ::
  "('h, 'i) wcs_primitives \<Rightarrow> 'h canvas \<Rightarrow> int \<times> int \<Rightarrow> real list list \<Rightarrow> 'h canvas \<times> (int \<times> int)" where
  "grow ops c pos block =
     (case pos of
        (x, y) \<Rightarrow>
          let left = nat (- x);
              top = nat (- y);
              right = nat (x + int (grid_width block) - int (grid_width (cv_pixels c)));
              bottom = nat (y + int (length block) - int (length (cv_pixels c)));
              w' = left + grid_width (cv_pixels c) + right;
              rows = replicate top (replicate w' 0)
                     @ map (\<lambda>row. replicate left 0 @ row @ replicate right 0) (cv_pixels c)
                     @ replicate bottom (replicate w' 0)
          in (c\<lparr>cv_pixels := rows,
                 cv_header := shift_reference ops (int left, int top) (cv_header c)\<rparr>,
              (x + int left, y + int top)))"

text \<open>
  Modelled from the spec: "Copy transformed pixel values into the canvas region,
  overwriting prior content at overlaps." The missing part is the copy of
  \<^verbatim>\<open>mosaic_inline\<close>.
\<close>

definition overwrite_row :: "real list \<Rightarrow> nat \<Rightarrow> real list \<Rightarrow> real list" where
  "overwrite_row row x new = take x row @ new @ drop (x + length new) row"

definition copy_block :: "real list list \<Rightarrow> nat \<Rightarrow> nat \<Rightarrow> real list list \<Rightarrow> real list list" where
  "copy_block g x y block =
     take y g
     @ map (\<lambda>(row, new). overwrite_row row x new) (zip (take (length block) (drop y g)) block)
     @ drop (y + length block) g"

text \<open>
  Modelled from the spec: steps 4 and 5 of section 4.3, the copy and the appended
  placement record (source name, pixel offset, expansion flag).
\<close>

definition place ::
  "('h, 'i) wcs_primitives \<Rightarrow> 'h canvas \<Rightarrow> int \<times> int \<Rightarrow> real list list \<Rightarrow> 'i \<Rightarrow> bool \<Rightarrow>
   (exn + string \<times> (int \<times> int) \<times> bool) \<times> 'h canvas" where
  "place ops c pos block img expanded =
     (let rec = (source_name ops img, pos, expanded)
      in (Inr rec,
          c\<lparr>cv_pixels := copy_block (cv_pixels c) (nat (fst pos)) (nat (snd pos)) block,
            cv_placements := cv_placements c @ [rec]\<rparr>))"

text \<open>
  Modelled from the spec: steps 1 to 5 of section 4.3 for one image. The missing part is
  the body of \<^verbatim>\<open>AstroImage.mosaic_inline\<close> for one element of its image list: "if
  \<^verbatim>\<open>allow_expand\<close> is false and the image doesn't fit, signal \<^verbatim>\<open>OutOfBoundsError\<close> for
  that image without mutating the canvas".
\<close>

definition inline_image ::
  "('h, 'i) wcs_primitives \<Rightarrow> bool \<Rightarrow> 'h canvas \<Rightarrow> 'i \<Rightarrow>
   (exn + string \<times> (int \<times> int) \<times> bool) \<times> 'h canvas" where
  "inline_image ops allow_expand c img =
     (let pos = sky_to_pixel ops (cv_header c) img;
          block = resample ops (cv_header c) img
      in if fits c pos block then place ops c pos block img False
         else if allow_expand then
           (case grow ops c pos block of (c', pos') \<Rightarrow> place ops c' pos' block img True)
         else (Inl OutOfBoundsError, c))"

text \<open>
  Modelled from the spec: \<^verbatim>\<open>inline(canvas, images, allow_expand)\<close>, "for each image in
  images (processed in the given order)", returning the placement records. The missing
  part is \<^verbatim>\<open>AstroImage.mosaic_inline\<close>.
\<close>

fun inline ::
  "('h, 'i) wcs_primitives \<Rightarrow> 'h canvas \<Rightarrow> 'i list \<Rightarrow> bool \<Rightarrow>
   (exn + (string \<times> (int \<times> int) \<times> bool) list) \<times> 'h canvas" where
  "inline ops c [] allow_expand = (Inr [], c)"
| "inline ops c (img # imgs) allow_expand =
     (case inline_image ops allow_expand c img of
        (Inl e, c') \<Rightarrow> (Inl e, c')
      | (Inr rec, c') \<Rightarrow>
          (case inline ops c' imgs allow_expand of
             (Inl e, c'') \<Rightarrow> (Inl e, c'')
           | (Inr recs, c'') \<Rightarrow> (Inr (rec # recs), c'')))"

text \<open>A concrete instance: tiles that know their pixel position, on a canvas whose header
  is the pixel offset of the sky origin.\<close>

record sky_tile =
  tile_name :: string
  tile_pos :: "int \<times> int"
  tile_pixels :: "real list list"

definition tile_wcs :: "(int \<times> int, sky_tile) wcs_primitives" where
  "tile_wcs =
     \<lparr>sky_to_pixel = (\<lambda>h t. (fst h + fst (tile_pos t), snd h + snd (tile_pos t))),
      resample = (\<lambda>h t. tile_pixels t),
      shift_reference = (\<lambda>d h. (fst h + fst d, snd h + snd d)),
      source_name = tile_name\<rparr>"

definition blank2 :: "(int \<times> int) canvas" where
  "blank2 = \<lparr>cv_pixels = [[0, 0], [0, 0]], cv_header = (0, 0), cv_placements = []\<rparr>"

definition corner_tile :: sky_tile where
  "corner_tile = \<lparr>tile_name = ''t'', tile_pos = (1, 1), tile_pixels = [[5, 5], [5, 5]]\<rparr>"

definition inner_tile :: sky_tile where
  "inner_tile = \<lparr>tile_name = ''u'', tile_pos = (0, 1), tile_pixels = [[7]]\<rparr>"

section \<open>The extractor and the allocator as the specification describes them\<close>

text \<open>
  \<^verbatim>\<open>wcs.get_rotation_and_scale\<close> and \<^verbatim>\<open>dp.create_blank_image\<close> are not part of the sources
  at hand either. The definitions of this section follow sections 4.1 and 4.2 of the
  specification, for headers that give the axis scales as \<^verbatim>\<open>CDELT1\<close>, \<^verbatim>\<open>CDELT2\<close> and the
  rotation as \<^verbatim>\<open>CROTA2\<close>, the \<^verbatim>\<open>CDELT\<close> layout the specification names. In that layout
  the axes are orthogonal by construction and no trigonometry is involved.
\<close>

type_synonym header = "(string \<times> real) list"

text \<open>
  Modelled from the spec: \<^verbatim>\<open>extract(header) -> (rotation_deg, scale_x, scale_y)\<close>, the
  pixel scale "with sign preserved", signalling \<^verbatim>\<open>WcsResolutionError\<close> "when required
  keywords are absent". The missing part is \<^verbatim>\<open>wcs.get_rotation_and_scale\<close>.
\<close>

definition extract_wcs :: "header \<Rightarrow> exn + real \<times> real \<times> real" where
  "extract_wcs h =
     (case (map_of h ''CROTA2'', map_of h ''CDELT1'', map_of h ''CDELT2'') of
        (Some r, Some a, Some b) \<Rightarrow> Inr (r, a, b)
      | _ \<Rightarrow> Inl WcsResolutionError)"

text \<open>
  Modelled from the spec: the blank grid of \<open>n\<close> by \<open>n\<close> pixels, "centered so the reference
  sky coordinate maps to the grid center, with rotation and axis-sign convention baked
  into the header". The missing part is the image \<^verbatim>\<open>dp.create_blank_image\<close> builds.
\<close>

definition blank_canvas ::
  "nat \<Rightarrow> real \<Rightarrow> real \<Rightarrow> real \<Rightarrow> real \<Rightarrow> real \<times> real \<Rightarrow> header canvas" where
  "blank_canvas n ra_deg dec_deg px_scale rot_deg axis_signs =
     \<lparr>cv_pixels = replicate n (replicate n 0),
      cv_header =
        [(''CRVAL1'', ra_deg), (''CRVAL2'', dec_deg),
         (''CRPIX1'', real n / 2), (''CRPIX2'', real n / 2),
         (''CDELT1'', fst axis_signs * px_scale), (''CDELT2'', snd axis_signs * px_scale),
         (''CROTA2'', rot_deg)],
      cv_placements = []\<rparr>"

text \<open>
  Modelled from the spec:
  \<^verbatim>\<open>allocate(ra_deg, dec_deg, fov_deg_or_none, px_scale, rot_deg, axis_signs)\<close>. For \<open>None\<close>
  it allocates "a minimal placeholder canvas (e.g., 1x1 or a small default)", here 1 by
  1; for a field of view "a square ... grid sized \<^verbatim>\<open>fov_deg / px_scale\<close> pixels per side";
  it signals \<^verbatim>\<open>AllocationError\<close> "if \<^verbatim>\<open>fov_deg\<close> is negative, zero, or yields a degenerate
  (sub-pixel) grid". The missing part is \<^verbatim>\<open>dp.create_blank_image\<close>.
\<close>

definition allocate ::
  "real \<Rightarrow> real \<Rightarrow> real option \<Rightarrow> real \<Rightarrow> real \<Rightarrow> real \<times> real \<Rightarrow> exn + header canvas" where
  "allocate ra_deg dec_deg fov_deg px_scale rot_deg axis_signs =
     (case fov_deg of
        None \<Rightarrow> Inr (blank_canvas 1 ra_deg dec_deg px_scale rot_deg axis_signs)
      | Some f \<Rightarrow>
          if f \<le> 0 \<or> nat \<lfloor>f / px_scale\<rfloor> < 1 then Inl AllocationError
          else Inr (blank_canvas (nat \<lfloor>f / px_scale\<rfloor>) ra_deg dec_deg px_scale rot_deg axis_signs))"



section \<open>A concrete world to run the driver in\<close>

text \<open>
  To run \<open>mosaic\<close> and \<open>main\<close> on explicit inputs the collaborators need values. The
  following instance is a test double, not the library: images are a name, a header and
  the list of images placed on them; files are named images; the extractor and the
  allocator are the ones of the previous section; every other operation is the simplest
  one with the interface its caller uses.
\<close>

record astro_image =
  img_name :: "string option"
  img_header :: header
  img_pixels :: "real list list"
  img_inlined :: "obj list"

record demo_world =
  objects :: "(obj \<times> astro_image) list"
  files :: "(string \<times> astro_image) list"

definition demo_load :: "string \<Rightarrow> demo_world \<Rightarrow> (exn + obj) \<times> demo_world" where
  "demo_load p w =
     (case map_of (files w) p of
        None \<Rightarrow> (Inl LoadError, w)
      | Some im \<Rightarrow>
          (Inr (length (objects w)), w\<lparr>objects := (length (objects w), im) # objects w\<rparr>))"

definition demo_get :: "obj \<Rightarrow> string \<Rightarrow> string \<Rightarrow> demo_world \<Rightarrow> string" where
  "demo_get i key dflt w =
     (case map_of (objects w) i of
        None \<Rightarrow> dflt
      | Some im \<Rightarrow>
          (if key = ''name'' then (case img_name im of None \<Rightarrow> dflt | Some n \<Rightarrow> n) else dflt))"

fun lookup_all :: "(string \<times> real) list \<Rightarrow> string list \<Rightarrow> exn + real list" where
  "lookup_all h [] = Inr []"
| "lookup_all h (k # ks) =
     (case map_of h k of
        None \<Rightarrow> Inl (KeyError k)
      | Some v \<Rightarrow> (case lookup_all h ks of Inl e \<Rightarrow> Inl e | Inr vs \<Rightarrow> Inr (v # vs)))"

definition demo_keywords :: "obj \<Rightarrow> string list \<Rightarrow> demo_world \<Rightarrow> exn + real list" where
  "demo_keywords i ks w =
     (case map_of (objects w) i of
        None \<Rightarrow> Inl (OtherError ''no such object'')
      | Some im \<Rightarrow> lookup_all (img_header im) ks)"

definition demo_header :: "obj \<Rightarrow> demo_world \<Rightarrow> header" where
  "demo_header i w = (case map_of (objects w) i of None \<Rightarrow> [] | Some im \<Rightarrow> img_header im)"


definition demo_create ::
  "real \<Rightarrow> real \<Rightarrow> real option \<Rightarrow> real \<Rightarrow> real \<Rightarrow> real list \<Rightarrow> demo_world \<Rightarrow> (exn + obj) \<times> demo_world" where
  "demo_create ra dec fv px rot cdbase w =
     (case cdbase of
        [sx, sy] \<Rightarrow>
          (case allocate ra dec fv px rot (sx, sy) of
             Inl e \<Rightarrow> (Inl e, w)
           | Inr cv \<Rightarrow>
               (Inr (length (objects w)),
                w\<lparr>objects :=
                    (length (objects w),
                     \<lparr>img_name = None, img_header = cv_header cv, img_pixels = cv_pixels cv,
                      img_inlined = []\<rparr>)
                    # objects w\<rparr>))
      | _ \<Rightarrow> (Inl ValueError, w))"

definition demo_has_wcs :: "demo_world \<Rightarrow> obj \<Rightarrow> bool" where
  "demo_has_wcs w i = (case extract_wcs (demo_header i w) of Inl e \<Rightarrow> False | Inr x \<Rightarrow> True)"

definition demo_inline ::
  "obj \<Rightarrow> obj list \<Rightarrow> bool option \<Rightarrow> demo_world \<Rightarrow> (exn + nat) \<times> demo_world" where
  "demo_inline c imgs allow_expand w =
     (case map_of (objects w) c of
        None \<Rightarrow> (Inl (OtherError ''no such object''), w)
      | Some cv \<Rightarrow>
          if list_all (demo_has_wcs w) imgs then
            (Inr (length (img_inlined cv) + length imgs),
             w\<lparr>objects :=
                 map (\<lambda>(k, v). if k = c then (k, v\<lparr>img_inlined := img_inlined v @ imgs\<rparr>) else (k, v))
                   (objects w)\<rparr>)
          else (Inl WcsResolutionError, w))"

definition demo_remove :: "string \<Rightarrow> demo_world \<Rightarrow> (exn + unit) \<times> demo_world" where
  "demo_remove p w =
     (case map_of (files w) p of
        None \<Rightarrow> (Inl OSError, w)
      | Some im \<Rightarrow> (Inr (), w\<lparr>files := filter (\<lambda>(k, v). k \<noteq> p) (files w)\<rparr>))"

definition demo_save :: "obj \<Rightarrow> string \<Rightarrow> demo_world \<Rightarrow> (exn + unit) \<times> demo_world" where
  "demo_save i p w =
     (case map_of (objects w) i of
        None \<Rightarrow> (Inl (OtherError ''no such object''), w)
      | Some im \<Rightarrow> (Inr (), w\<lparr>files := (p, im) # files w\<rparr>))"

definition demo_env :: "(demo_world, header, nat) env" where
  "demo_env =
     \<lparr>load_data = demo_load,
      load_file = demo_load,
      get = demo_get,
      get_keywords_list = demo_keywords,
      get_header = demo_header,
      get_rotation_and_scale = extract_wcs,
      create_blank_image = demo_create,
      mosaic_inline = demo_inline,
      str = show_nat,
      fmt_f = (\<lambda>x. ''%f''),
      io_fits_use = (\<lambda>pkg w. (Inr (), w)),
      os_remove = demo_remove,
      save_as_file = demo_save\<rparr>"

definition tile :: "string \<Rightarrow> real \<Rightarrow> real \<Rightarrow> astro_image" where
  "tile n ra dec =
     \<lparr>img_name = Some n,
      img_header =
        [(''CRVAL1'', ra), (''CRVAL2'', dec), (''CDELT1'', - 2), (''CDELT2'', 3), (''CROTA2'', 0)],
      img_pixels = [[1, 1], [1, 1]],
      img_inlined = []\<rparr>"

definition no_wcs :: astro_image where
  "no_wcs =
     \<lparr>img_name = None, img_header = [(''CRVAL1'', 1), (''CRVAL2'', 1)], img_pixels = [[1]],
      img_inlined = []\<rparr>"

text \<open>
  Three loaded images, the third without a resolvable WCS, and two files on disk;
  \<^verbatim>\<open>missing.fits\<close> is not among them.
\<close>

definition demo_start :: demo_world where
  "demo_start =
     \<lparr>objects = [(0, tile ''t0'' 10 20), (1, tile ''t1'' 11 20), (2, no_wcs)],
      files = [(''a.fits'', tile ''a'' 10 20), (''b.fits'', tile ''b'' 12 20)]\<rparr>"

section \<open>Properties of the driver\<close>

subsection \<open>Single steps\<close>

lemma io_fits_not_bound: "\<not> name_bound ''io_fits''"
  by (simp add: name_bound_def module_globals_def)

lemma andthenE [consumes 1, case_names fail ok]:
  assumes "andthen m f s = (r, s')"
  obtains e where "m s = (Inl e, s')" "r = Inl e"
        | a s1 where "m s = (Inr a, s1)" "f a s1 = (r, s')"
  using assms by (auto simp: andthen_def split: prod.splits sum.splits)

lemma debug_skip:
  "andthen (logger_debug msg) f = (\<lambda>s. f () (s\<lparr>logged := logged s @ [(DEBUG, msg)]\<rparr>))"
  by (simp add: andthen_def logger_debug_def fun_eq_iff)

lemma info_skip:
  "andthen (logger_info msg) f = (\<lambda>s. f () (s\<lparr>logged := logged s @ [(INFO, msg)]\<rparr>))"
  by (simp add: andthen_def logger_info_def fun_eq_iff)

lemma call_load_data_run:
  assumes "call_load_data env p s = (r, s1)"
  shows "load_data env p (world s) = (r, world s1)" "calls s1 = calls s @ [Load_data p r]"
  using assms by (auto simp: call_load_data_def split: prod.splits)

lemma call_get_keywords_list_run:
  assumes "call_get_keywords_list env i ks s = (r, s1)"
  shows "get_keywords_list env i ks (world s) = r" "world s1 = world s"
    "calls s1 = calls s @ [Get_keywords_list i ks r]"
  using assms by (auto simp: call_get_keywords_list_def)

lemma call_get_rotation_and_scale_run:
  assumes "call_get_rotation_and_scale env h s = (r, s1)"
  shows "get_rotation_and_scale env h = r" "world s1 = world s"
    "calls s1 = calls s @ [Get_rotation_and_scale h r]"
  using assms by (auto simp: call_get_rotation_and_scale_def)

lemma call_create_blank_image_run:
  assumes "call_create_blank_image env ra dec f px rot cb s = (r, s1)"
  shows "create_blank_image env ra dec f px rot cb (world s) = (r, world s1)"
    "calls s1 = calls s @ [Create_blank_image ra dec f px rot cb r]"
  using assms by (auto simp: call_create_blank_image_def split: prod.splits)

lemma call_mosaic_inline_run:
  assumes "call_mosaic_inline env c imgs fl s = (r, s1)"
  shows "mosaic_inline env c imgs fl (world s) = (r, world s1)"
    "calls s1 = calls s @ [Mosaic_inline c imgs fl r]"
  using assms by (auto simp: call_mosaic_inline_def split: prod.splits)

lemma resolve_item0_fail:
  assumes "resolve_item0 env item0 s = (Inl e, s1)"
  obtains p where "item0 = Path p" "load_data env p (world s) = (Inl e, world s1)"
    "calls s1 = calls s @ [Load_data p (Inl e)]"
  using assms
  by (cases item0)
     (auto simp: resolve_item0_def ret_def info_skip andthen_def call_load_data_def
           split: prod.splits sum.splits)

lemma resolve_item0_ok:
  assumes "resolve_item0 env item0 s = (Inr (image0, name), s1)"
  obtains L where "resolved env item0 (world s) image0 (world s1) L" "calls s1 = calls s @ L"
  using assms
  by (cases item0)
     (auto simp: resolve_item0_def resolved_def ret_def info_skip andthen_def call_load_data_def
           split: prod.splits sum.splits)

lemma get_crval_cases [consumes 1, case_names lookup_failed unpack_failed ok]:
  assumes "get_crval env i s = (r, s1)"
  obtains
    e where "get_keywords_list env i [''CRVAL1'', ''CRVAL2''] (world s) = Inl e" "r = Inl e"
      "world s1 = world s"
      "calls s1 = calls s @ [Get_keywords_list i [''CRVAL1'', ''CRVAL2''] (Inl e)]"
  | vs where "get_keywords_list env i [''CRVAL1'', ''CRVAL2''] (world s) = Inr vs"
      "length vs \<noteq> 2" "r = Inl ValueError" "world s1 = world s"
      "calls s1 = calls s @ [Get_keywords_list i [''CRVAL1'', ''CRVAL2''] (Inr vs)]"
  | ra dec where "get_keywords_list env i [''CRVAL1'', ''CRVAL2''] (world s) = Inr [ra, dec]"
      "r = Inr (ra, dec)" "world s1 = world s"
      "calls s1 = calls s @ [Get_keywords_list i [''CRVAL1'', ''CRVAL2''] (Inr [ra, dec])]"
  using assms
  by (auto simp: get_crval_def andthen_def call_get_keywords_list_def ret_def raise_def
           split: sum.splits list.splits)

subsection \<open>Every way lines 34 to 68 can end\<close>

lemma item0_cases [consumes 1, case_names load_failed lookup_failed unpack_failed extract_failed
    create_failed canvas_extract_failed inline_failed inlined]:
  assumes "mosaic_item0 env item0 fov_deg s = (r, s')"
  obtains
    p e where "item0 = Path p" "load_data env p (world s) = (Inl e, world s')" "r = Inl e"
      "calls s' = calls s @ [Load_data p (Inl e)]"
  | image0 L e where "resolved env item0 (world s) image0 (world s') L" "r = Inl e"
      "calls s' = calls s @ L @ [Get_keywords_list image0 [''CRVAL1'', ''CRVAL2''] (Inl e)]"
  | image0 L vs where "resolved env item0 (world s) image0 (world s') L" "r = Inl ValueError"
      "length vs \<noteq> 2"
      "calls s' = calls s @ L @ [Get_keywords_list image0 [''CRVAL1'', ''CRVAL2''] (Inr vs)]"
  | image0 L ra dec e where "resolved env item0 (world s) image0 (world s') L"
      "get_keywords_list env image0 [''CRVAL1'', ''CRVAL2''] (world s') = Inr [ra, dec]"
      "r = Inl e"
      "calls s' = calls s @ L @
         [Get_keywords_list image0 [''CRVAL1'', ''CRVAL2''] (Inr [ra, dec]),
          Get_rotation_and_scale (get_header env image0 (world s')) (Inl e)]"
  | image0 w1 L ra dec rot c1 c2 e where "resolved env item0 (world s) image0 w1 L"
      "get_keywords_list env image0 [''CRVAL1'', ''CRVAL2''] w1 = Inr [ra, dec]"
      "get_rotation_and_scale env (get_header env image0 w1) = Inr (rot, c1, c2)"
      "r = Inl e"
      "calls s' = calls s @ L @
         [Get_keywords_list image0 [''CRVAL1'', ''CRVAL2''] (Inr [ra, dec]),
          Get_rotation_and_scale (get_header env image0 w1) (Inr (rot, c1, c2)),
          Create_blank_image ra dec fov_deg \<bar>c1\<bar> rot [sgn c1, sgn c2] (Inl e)]"
  | image0 w1 L ra dec rot c1 c2 c e where "resolved env item0 (world s) image0 w1 L"
      "get_keywords_list env image0 [''CRVAL1'', ''CRVAL2''] w1 = Inr [ra, dec]"
      "get_rotation_and_scale env (get_header env image0 w1) = Inr (rot, c1, c2)"
      "create_blank_image env ra dec fov_deg \<bar>c1\<bar> rot [sgn c1, sgn c2] w1 = (Inr c, world s')"
      "r = Inl e"
      "calls s' = calls s @ L @
         [Get_keywords_list image0 [''CRVAL1'', ''CRVAL2''] (Inr [ra, dec]),
          Get_rotation_and_scale (get_header env image0 w1) (Inr (rot, c1, c2)),
          Create_blank_image ra dec fov_deg \<bar>c1\<bar> rot [sgn c1, sgn c2] (Inr c),
          Get_rotation_and_scale (get_header env c (world s')) (Inl e)]"
  | image0 w1 L ra dec rot c1 c2 c w2 r2 e where "resolved env item0 (world s) image0 w1 L"
      "get_keywords_list env image0 [''CRVAL1'', ''CRVAL2''] w1 = Inr [ra, dec]"
      "get_rotation_and_scale env (get_header env image0 w1) = Inr (rot, c1, c2)"
      "create_blank_image env ra dec fov_deg \<bar>c1\<bar> rot [sgn c1, sgn c2] w1 = (Inr c, w2)"
      "get_rotation_and_scale env (get_header env c w2) = Inr r2"
      "mosaic_inline env c [image0] (Some (fov_deg = None)) w2 = (Inl e, world s')"
      "r = Inl e"
      "calls s' = calls s @ L @
         [Get_keywords_list image0 [''CRVAL1'', ''CRVAL2''] (Inr [ra, dec]),
          Get_rotation_and_scale (get_header env image0 w1) (Inr (rot, c1, c2)),
          Create_blank_image ra dec fov_deg \<bar>c1\<bar> rot [sgn c1, sgn c2] (Inr c),
          Get_rotation_and_scale (get_header env c w2) (Inr r2),
          Mosaic_inline c [image0] (Some (fov_deg = None)) (Inl e)]"
  | image0 w1 L ra dec rot c1 c2 c w2 r2 t0 where "resolved env item0 (world s) image0 w1 L"
      "get_keywords_list env image0 [''CRVAL1'', ''CRVAL2''] w1 = Inr [ra, dec]"
      "get_rotation_and_scale env (get_header env image0 w1) = Inr (rot, c1, c2)"
      "create_blank_image env ra dec fov_deg \<bar>c1\<bar> rot [sgn c1, sgn c2] w1 = (Inr c, w2)"
      "get_rotation_and_scale env (get_header env c w2) = Inr r2"
      "mosaic_inline env c [image0] (Some (fov_deg = None)) w2 = (Inr t0, world s')"
      "r = Inr c"
      "calls s' = calls s @ L @
         [Get_keywords_list image0 [''CRVAL1'', ''CRVAL2''] (Inr [ra, dec]),
          Get_rotation_and_scale (get_header env image0 w1) (Inr (rot, c1, c2)),
          Create_blank_image ra dec fov_deg \<bar>c1\<bar> rot [sgn c1, sgn c2] (Inr c),
          Get_rotation_and_scale (get_header env c w2) (Inr r2),
          Mosaic_inline c [image0] (Some (fov_deg = None)) (Inr t0)]"
proof -
  note run = assms[unfolded mosaic_item0_def Let_def debug_skip]
  from run show thesis
  proof (cases rule: andthenE)
    case (fail e)
    from fail(1) obtain p where "item0 = Path p" "load_data env p (world s) = (Inl e, world s')"
      "calls s' = calls s @ [Load_data p (Inl e)]"
      by (rule resolve_item0_fail)
    with fail(2) show thesis by (intro that(1))
  next
    case (ok a s1)
    obtain image0 name where a: "a = (image0, name)" by (cases a)
    from ok(1) a obtain L where L: "resolved env item0 (world s) image0 (world s1) L"
      "calls s1 = calls s @ L"
      by (auto elim: resolve_item0_ok)
    from ok(2)[unfolded a prod.case] show thesis
    proof (cases rule: andthenE)
      case (fail e)
      from fail(1) show thesis
      proof (cases rule: get_crval_cases)
        case (lookup_failed e')
        with L fail(2) show thesis by (intro that(2)[of image0 L e]) auto
      next
        case (unpack_failed vs)
        with L fail(2) show thesis by (intro that(3)[of image0 L vs]) auto
      next
        case (ok ra dec)
        then show thesis by simp
      qed
    next
      case (ok b s2)
      from ok(1) obtain ra dec where b: "b = (ra, dec)" and w2: "world s2 = world s1"
        and kw: "get_keywords_list env image0 [''CRVAL1'', ''CRVAL2''] (world s1) = Inr [ra, dec]"
        and c2: "calls s2 = calls s1 @ [Get_keywords_list image0 [''CRVAL1'', ''CRVAL2''] (Inr [ra, dec])]"
        by (cases rule: get_crval_cases) auto
      from ok(2)[unfolded b prod.case] show thesis
      proof (cases rule: andthenE)
        case (fail e)
        from call_get_rotation_and_scale_run[OF fail(1)] L kw w2 c2 fail(2) show thesis
          by (intro that(4)[of image0 L ra dec e]) auto
      next
        case (ok g s3)
        obtain rot c1 c2 where g: "g = (rot, c1, c2)" by (cases g)
        note ex = call_get_rotation_and_scale_run[OF ok(1), unfolded g]
        from ok(2)[unfolded g prod.case] show thesis
        proof (cases rule: andthenE)
          case (fail e)
          from call_create_blank_image_run[OF fail(1)] ex L kw w2 c2 fail(2) show thesis
            by (intro that(5)[of image0 "world s1" L ra dec rot c1 c2 e]) auto
        next
          case (ok c s4)
          note cr = call_create_blank_image_run[OF ok(1)]
          from ok(2) show thesis
          proof (cases rule: andthenE)
            case (fail e)
            from call_get_rotation_and_scale_run[OF fail(1)] cr ex L kw w2 c2 fail(2) show thesis
              by (intro that(6)[of image0 "world s1" L ra dec rot c1 c2 c e]) auto
          next
            case (ok g2 s5)
            note ex2 = call_get_rotation_and_scale_run[OF ok(1)]
            obtain x y z where g2: "g2 = (x, y, z)" by (cases g2)
            from ok(2)[unfolded g2 prod.case] show thesis
            proof (cases rule: andthenE)
              case (fail e)
              from call_mosaic_inline_run[OF fail(1)] ex2 cr ex L kw w2 c2 fail(2) show thesis
                by (intro that(7)[of image0 "world s1" L ra dec rot c1 c2 c "world s4" g2 e]) auto
            next
              case (ok t0 s6)
              from ok(2) have "r = Inr c" "world s' = world s6" "calls s' = calls s6"
                by (auto simp: ret_def)
              with call_mosaic_inline_run[OF ok(1)] ex2 cr ex L kw w2 c2 show thesis
                by (intro that(8)[of image0 "world s1" L ra dec rot c1 c2 c "world s4" g2 t0]) auto
            qed
          qed
        qed
      qed
    qed
  qed
qed

subsection \<open>Every way the loop of lines 70 to 85 can end\<close>

lemma loop_append:
  "mosaic_loop env c n (xs @ ys) s =
     andthen (mosaic_loop env c n xs) (\<lambda>u. mosaic_loop env c (n + length xs) ys) s"
proof (induction xs arbitrary: n s)
  case Nil
  show ?case by (simp add: andthen_def ret_def)
next
  case (Cons x xs)
  show ?case
    by (simp add: Cons.IH andthen_def split: prod.splits sum.splits)
qed

lemma loop_path:
  "mosaic_loop env c n (Path p # rest) s =
     (Inl (NameError ''io_fits''),
      s\<lparr>logged := logged s @ [(INFO, ''Reading file '' @ quoted p @ '' ...'')]\<rparr>)"
  by (simp add: resolve_item_def io_fits_not_bound andthen_def logger_info_def raise_def)

lemma loop_loaded:
  assumes "mosaic_loop env c n (Loaded j # rest) s = (r, s')"
  obtains e where "r = Inl e" "calls s' = calls s @ [Mosaic_inline c [j] None (Inl e)]"
        | t s1 where "calls s1 = calls s @ [Mosaic_inline c [j] None (Inr t)]"
            "mosaic_loop env c (n + 1) rest s1 = (r, s')"
proof -
  from assms have
    "andthen (call_mosaic_inline env c [j] None)
       (\<lambda>tup s. mosaic_loop env c (n + 1) rest (s\<lparr>logged := logged s @ [(DEBUG, ''placement '' @ str env tup)]\<rparr>))
       (s\<lparr>logged := logged s @ [(DEBUG, ''Inlining '' @ quoted (get env j ''name'' (''image'' @ show_nat n) (world s)) @ '' ...'')]\<rparr>)
     = (r, s')"
    by (simp add: resolve_item_def debug_skip) (simp add: andthen_def ret_def)
  then show thesis
  proof (cases rule: andthenE)
    case (fail e)
    from call_mosaic_inline_run(2)[OF fail(1)] fail(2) show thesis
      by (intro that(1)[of e]) auto
  next
    case (ok t s1)
    from call_mosaic_inline_run(2)[OF ok(1)] ok(2) show thesis
      by (intro that(2)[of "s1\<lparr>logged := logged s1 @ [(DEBUG, ''placement '' @ str env t)]\<rparr>" t]) auto
  qed
qed

lemma loop_run:
  assumes "mosaic_loop env c n items s = (r, s')"
  shows "\<exists>jts F. calls s' = calls s @ inlined_later c jts @ F \<and>
     ((r = Inr () \<and> items = map (Loaded \<circ> fst) jts \<and> F = [])
    \<or> (\<exists>j rest e. r = Inl e \<and> items = map (Loaded \<circ> fst) jts @ Loaded j # rest
           \<and> F = [Mosaic_inline c [j] None (Inl e)])
    \<or> (\<exists>p rest. r = Inl (NameError ''io_fits'') \<and> items = map (Loaded \<circ> fst) jts @ Path p # rest
           \<and> F = []))"
  using assms
proof (induction items arbitrary: n s)
  case Nil
  then show ?case
    by (intro exI[of _ "[]"] exI[of _ "[]"]) (auto simp: ret_def inlined_later_def)
next
  case (Cons item rest)
  show ?case
  proof (cases item)
    case (Path p)
    with Cons.prems show ?thesis
      by (intro exI[of _ "[]"] exI[of _ "[]"])
         (auto simp: loop_path inlined_later_def simp del: mosaic_loop.simps)
  next
    case (Loaded j)
    from Cons.prems[unfolded Loaded] show ?thesis
    proof (cases rule: loop_loaded)
      case (1 e)
      then show ?thesis
        unfolding Loaded
        by (intro exI[of _ "[]"] exI[of _ "[Mosaic_inline c [j] None (Inl e)]"])
           (auto simp: inlined_later_def)
    next
      case (2 t s1)
      from Cons.IH[OF 2(2)] obtain jts F where
        c: "calls s' = calls s1 @ inlined_later c jts @ F" and
        d: "(r = Inr () \<and> rest = map (Loaded \<circ> fst) jts \<and> F = [])
          \<or> (\<exists>j rest' e. r = Inl e \<and> rest = map (Loaded \<circ> fst) jts @ Loaded j # rest'
                \<and> F = [Mosaic_inline c [j] None (Inl e)])
          \<or> (\<exists>p rest'. r = Inl (NameError ''io_fits'') \<and> rest = map (Loaded \<circ> fst) jts @ Path p # rest'
                \<and> F = [])"
        by blast
      from c 2(1) have "calls s' = calls s @ inlined_later c ((j, t) # jts) @ F"
        by (simp add: inlined_later_def)
      with d show ?thesis
        unfolding Loaded by (intro exI[of _ "(j, t) # jts"] exI[of _ F]) auto
    qed
  qed
qed

subsection \<open>Every way a run of \<open>mosaic\<close> can end\<close>

lemma history_cases [case_names item0_failed item0_inlined]:
  obtains
    e s' where "mosaic_item0 env item0 fov_deg (init w) = (Inl e, s')"
      "outcome env (item0 # rest) fov_deg w = Inl e"
      "history env (item0 # rest) fov_deg w = calls s'"
  | c s1 jts F where "mosaic_item0 env item0 fov_deg (init w) = (Inr c, s1)"
      "history env (item0 # rest) fov_deg w = calls s1 @ inlined_later c jts @ F"
      "(outcome env (item0 # rest) fov_deg w = Inr c \<and> rest = map (Loaded \<circ> fst) jts \<and> F = [])
     \<or> (\<exists>j rest' e. outcome env (item0 # rest) fov_deg w = Inl e
            \<and> rest = map (Loaded \<circ> fst) jts @ Loaded j # rest'
            \<and> F = [Mosaic_inline c [j] None (Inl e)])
     \<or> (\<exists>p rest'. outcome env (item0 # rest) fov_deg w = Inl (NameError ''io_fits'')
            \<and> rest = map (Loaded \<circ> fst) jts @ Path p # rest' \<and> F = [])"
proof -
  obtain r0 s1 where i0: "mosaic_item0 env item0 fov_deg (init w) = (r0, s1)"
    by (cases "mosaic_item0 env item0 fov_deg (init w)")
  show thesis
  proof (cases r0)
    case (Inl e)
    with i0 show thesis
      by (intro that(1)[of e s1])
         (auto simp: outcome_def history_def mosaic_def andthen_def)
  next
    case (Inr c)
    obtain rl s2 where lp: "mosaic_loop env c 1 rest s1 = (rl, s2)"
      by (cases "mosaic_loop env c 1 rest s1")
    from loop_run[OF lp] obtain jts F where
      c: "calls s2 = calls s1 @ inlined_later c jts @ F" and
      d: "(rl = Inr () \<and> rest = map (Loaded \<circ> fst) jts \<and> F = [])
        \<or> (\<exists>j rest' e. rl = Inl e \<and> rest = map (Loaded \<circ> fst) jts @ Loaded j # rest'
              \<and> F = [Mosaic_inline c [j] None (Inl e)])
        \<or> (\<exists>p rest'. rl = Inl (NameError ''io_fits'') \<and> rest = map (Loaded \<circ> fst) jts @ Path p # rest'
              \<and> F = [])"
      by blast
    have o: "outcome env (item0 # rest) fov_deg w = (case rl of Inl e \<Rightarrow> Inl e | Inr u \<Rightarrow> Inr c)"
      and h: "history env (item0 # rest) fov_deg w = calls s2"
      using i0 Inr lp
      by (auto simp: outcome_def history_def mosaic_def andthen_def ret_def logger_info_def
               split: sum.splits)
    from i0 Inr c d o h show thesis
      by (intro that(2)[of c s1 jts F]) auto
  qed
qed

lemma run_empty:
  "outcome env [] fov_deg w = Inl IndexError" "history env [] fov_deg w = []"
  by (simp_all add: outcome_def history_def mosaic_def raise_def init_def)

subsection \<open>Reading histories\<close>

lemma is_create_simps [simp]:
  "is_create (Create_blank_image ra dec f px rot cb res)"
  "\<not> is_create (Load_data p r1)"
  "\<not> is_create (Get_keywords_list i ks r2)"
  "\<not> is_create (Get_rotation_and_scale h r3)"
  "\<not> is_create (Mosaic_inline c imgs fl r4)"
  by (simp_all add: is_create_def)

lemma inline_calls_append [simp]: "inline_calls (xs @ ys) = inline_calls xs @ inline_calls ys"
  by (induction xs rule: inline_calls.induct) auto

lemma inlined_later_reads [simp]:
  "filter is_create (inlined_later c jts) = []"
  "inline_calls (inlined_later c jts) = map (\<lambda>jt. (c, [fst jt], None)) jts"
  "\<forall>ev\<in>set (inlined_later c jts). failure ev = None"
  "Create_blank_image ra dec f px rot cb res \<notin> set (inlined_later c jts)"
  by (induction jts) (auto simp: inlined_later_def failure_def)

subsection \<open>The claims about the calls of a run\<close>

lemma replicate_snoc_same: "replicate n x @ [x] = replicate (Suc n) x"
  by (induction n) auto


text \<open>
  Claim C7. The expansion flag derived from \<^verbatim>\<open>fov_deg\<close> is passed to the first call of
  \<^verbatim>\<open>mosaic_inline\<close> only, the one for item 0; every later call passes no
  \<^verbatim>\<open>allow_expand\<close> argument, whether or not a field of view was given. A run that
  completes makes one call per item.
\<close>

theorem expand_flag_only_first_inline:
  "(inline_flags (history env itemlist fov_deg w) = []
      \<or> inline_flags (history env itemlist fov_deg w)
          = Some (fov_deg = None)
            # replicate (length (inline_flags (history env itemlist fov_deg w)) - 1) None)
   \<and> length (inline_flags (history env itemlist fov_deg w)) \<le> length itemlist
   \<and> (\<forall>c. outcome env itemlist fov_deg w = Inr c \<longrightarrow>
         length (inline_flags (history env itemlist fov_deg w)) = length itemlist)"
proof (cases itemlist)
  case Nil
  then show ?thesis by (simp add: run_empty inline_flags_def)
next
  case (Cons item0 rest)
  note il = Cons
  show ?thesis
  proof (cases rule: history_cases[of env item0 fov_deg w rest])
    case (item0_failed e s')
    from item0_failed(1) show ?thesis
      by (cases rule: item0_cases)
         (use item0_failed(2,3) in \<open>auto simp: il init_def resolved_def inline_flags_def split: item.splits\<close>)
  next
    case (item0_inlined c s1 jts F)
    from item0_inlined(1) show ?thesis
      by (cases rule: item0_cases)
         (use item0_inlined(2,3) in
           \<open>auto simp: il init_def resolved_def inline_flags_def comp_def map_replicate_const
                       replicate_snoc_same split: item.splits\<close>)
  qed
qed


text \<open>
  Claim C8. The allocator is called with the pixel scale \<open>\<bar>cdelt1\<bar>\<close> and with
  \<^verbatim>\<open>cdbase\<close> \<open>= [sgn cdelt1, sgn cdelt2]\<close>, where \<open>(rot, cdelt1, cdelt2)\<close> is what the
  extractor returned for the header of item 0: the signs of both axes are kept, the
  magnitude of the second axis is not used.
\<close>

theorem allocator_scale_and_signs:
  "(\<forall>ra dec f px rot cb res.
       Create_blank_image ra dec f px rot cb res \<in> set (history env itemlist fov_deg w) \<longrightarrow>
       (\<exists>image0 w1 L c1 c2.
           resolved env (hd itemlist) w image0 w1 L \<and>
           get_rotation_and_scale env (get_header env image0 w1) = Inr (rot, c1, c2) \<and>
           px = \<bar>c1\<bar> \<and> cb = [sgn c1, sgn c2]))
   \<and> (\<forall>c. outcome env itemlist fov_deg w = Inr c \<longrightarrow>
         (\<exists>ra dec px rot cb.
            Create_blank_image ra dec fov_deg px rot cb (Inr c)
              \<in> set (history env itemlist fov_deg w)))"
proof (cases itemlist)
  case Nil
  then show ?thesis by (simp add: run_empty)
next
  case (Cons item0 rest)
  note il = Cons
  show ?thesis
  proof (cases rule: history_cases[of env item0 fov_deg w rest])
    case (item0_failed e s')
    from item0_failed(1) show ?thesis
      by (cases rule: item0_cases)
         (use item0_failed(2,3) in \<open>auto simp: il init_def resolved_def split: item.splits\<close>)
  next
    case (item0_inlined c s1 jts F)
    from item0_inlined(1) show ?thesis
      by (cases rule: item0_cases)
         (use item0_inlined(2,3) in \<open>auto simp: il init_def resolved_def split: item.splits\<close>)
  qed
qed

subsection \<open>Failures\<close>

lemma map_Loaded_no_path: "map Loaded js \<noteq> xs @ Path p # ys"
proof
  assume eq: "map Loaded js = xs @ Path p # ys"
  have "Path p \<in> set (xs @ Path p # ys)" by simp
  then have "Path p \<in> set (map Loaded js)" by (simp only: eq)
  then show False by auto
qed

lemma map_Loaded_eq: "map Loaded js = map (Loaded \<circ> fst) jts \<Longrightarrow> js = map fst jts"
proof (induction js arbitrary: jts)
  case Nil
  then show ?case by simp
next
  case (Cons j js)
  then show ?case by (cases jts) auto
qed

lemma failure_simps [simp]:
  "failure (Load_data p (Inr i)) = None" "failure (Load_data p (Inl e)) = Some e"
  "failure (Get_keywords_list i ks (Inr vs)) = None"
  "failure (Get_keywords_list i ks (Inl e)) = Some e"
  "failure (Get_rotation_and_scale h (Inr g)) = None"
  "failure (Get_rotation_and_scale h (Inl e)) = Some e"
  "failure (Create_blank_image ra dec f px rot cb (Inr c)) = None"
  "failure (Create_blank_image ra dec f px rot cb (Inl e)) = Some e"
  "failure (Mosaic_inline c imgs fl (Inr t)) = None"
  "failure (Mosaic_inline c imgs fl (Inl e)) = Some e"
  by (simp_all add: failure_def)

lemma inlined_later_ok: "ev \<in> set (inlined_later c jts) \<Longrightarrow> failure ev = None"
  by (auto simp: inlined_later_def)

text \<open>
  Claim C1, as amended. \<open>mosaic\<close> has no exception handler. For an item list whose items
  after the first are all loaded images: every call but the last of a run has succeeded;
  a run that returns the canvas has made no failing call and has inlined the image item 0
  resolves to and then every later item, in order; a run that raises has made at least
  one call, and raises the error of its last call (or \<^verbatim>\<open>ValueError\<close>, when the keyword
  lookup for item 0 did not return two values). So a failure on any item, the first or a
  later one, ends the run there; nothing is skipped.
\<close>

theorem mosaic_catches_nothing:
  "(\<forall>ev\<in>set (butlast (history env (item0 # map Loaded js) fov_deg w)). failure ev = None)
   \<and> (case outcome env (item0 # map Loaded js) fov_deg w of
         Inr c \<Rightarrow>
           (\<forall>ev\<in>set (history env (item0 # map Loaded js) fov_deg w). failure ev = None)
           \<and> (\<exists>image0 w1 L.
                  resolved env item0 w image0 w1 L
                \<and> inline_calls (history env (item0 # map Loaded js) fov_deg w)
                    = (c, [image0], Some (fov_deg = None)) # map (\<lambda>j. (c, [j], None)) js)
       | Inl e \<Rightarrow>
           history env (item0 # map Loaded js) fov_deg w \<noteq> []
           \<and> (failure (last (history env (item0 # map Loaded js) fov_deg w)) = Some e
               \<or> e = ValueError
                 \<and> (\<exists>i vs. last (history env (item0 # map Loaded js) fov_deg w)
                       = Get_keywords_list i [''CRVAL1'', ''CRVAL2''] (Inr vs) \<and> length vs \<noteq> 2)))"
proof (cases rule: history_cases[of env item0 fov_deg w "map Loaded js"])
  case (item0_failed e s')
  from item0_failed(1) show ?thesis
    by (cases rule: item0_cases)
       (use item0_failed(2,3) in
         \<open>auto simp: init_def resolved_def butlast_append split: item.splits\<close>)
next
  case (item0_inlined c s1 jts F)
  from item0_inlined(1) have
    "\<exists>image0 w1 L. resolved env item0 w image0 w1 L
       \<and> (\<forall>ev\<in>set (calls s1). failure ev = None)
       \<and> inline_calls (calls s1) = [(c, [image0], Some (fov_deg = None))]"
    by (cases rule: item0_cases) (auto simp: init_def resolved_def split: item.splits)
  then obtain image0 w1 L where
    rs: "resolved env item0 w image0 w1 L" and
    ok1: "\<forall>ev\<in>set (calls s1). failure ev = None" and
    ic1: "inline_calls (calls s1) = [(c, [image0], Some (fov_deg = None))]"
    by blast
  note h = item0_inlined(2)
  from item0_inlined(3) show ?thesis
  proof (elim disjE conjE exE)
    assume o: "outcome env (item0 # map Loaded js) fov_deg w = Inr c"
      and r: "map Loaded js = map (Loaded \<circ> fst) jts" and F: "F = []"
    from map_Loaded_eq[OF r] have js: "js = map fst jts" .
    have a: "\<forall>ev\<in>set (history env (item0 # map Loaded js) fov_deg w). failure ev = None"
      using ok1 by (auto simp: h F inlined_later_ok)
    have b: "inline_calls (history env (item0 # map Loaded js) fov_deg w)
               = (c, [image0], Some (fov_deg = None)) # map (\<lambda>j. (c, [j], None)) js"
      unfolding h F by (simp add: ic1 js comp_def)
    from a have "\<forall>ev\<in>set (butlast (history env (item0 # map Loaded js) fov_deg w)). failure ev = None"
      by (blast dest: in_set_butlastD)
    with a b o rs show ?thesis by auto
  next
    fix j rest' e
    assume o: "outcome env (item0 # map Loaded js) fov_deg w = Inl e"
      and F: "F = [Mosaic_inline c [j] None (Inl e)]"
    have bl: "butlast (history env (item0 # map Loaded js) fov_deg w) = calls s1 @ inlined_later c jts"
      by (simp add: h F butlast_append)
    have a: "\<forall>ev\<in>set (butlast (history env (item0 # map Loaded js) fov_deg w)). failure ev = None"
      unfolding bl using ok1 by (auto simp: inlined_later_ok)
    have l: "last (history env (item0 # map Loaded js) fov_deg w) = Mosaic_inline c [j] None (Inl e)"
      by (simp add: h F)
    have n: "history env (item0 # map Loaded js) fov_deg w \<noteq> []"
      by (simp add: h F)
    from a l n o show ?thesis by simp
  next
    fix p rest'
    assume "map Loaded js = map (Loaded \<circ> fst) jts @ Path p # rest'"
    with map_Loaded_no_path[of js "map (Loaded \<circ> fst) jts" p rest'] show ?thesis by simp
  qed
qed

text \<open>
  Claim C3. The name \<^verbatim>\<open>io_fits\<close> is not bound in the module. If the items before a path
  in second or later position can be processed, the run raises \<^verbatim>\<open>NameError\<close> at that
  path; a list with a path after the first item never yields a canvas; no run ever
  calls \<^verbatim>\<open>io_fits.load_file\<close>; and \<open>main\<close>, given a non-empty output file name,
  raises the same \<^verbatim>\<open>NameError\<close> right after \<open>mosaic\<close> returns.
\<close>

theorem io_fits_unbound:
  "\<not> name_bound ''io_fits''
   \<and> (outcome env (item0 # map Loaded js) fov_deg w = Inr c \<longrightarrow>
        outcome env (item0 # map Loaded js @ Path p # rest) fov_deg w = Inl (NameError ''io_fits''))
   \<and> (Path p \<in> set rest \<longrightarrow> (\<exists>e. outcome env (item0 # rest) fov_deg w = Inl e))
   \<and> (\<forall>q r. Load_file q r \<notin> set (history env itemlist fov_deg w))
   \<and> (fst (mosaic env args (fov opts) s) = Inr c \<and> outfile opts = Some path \<and> path \<noteq> [] \<longrightarrow>
        main env opts args s = (Inl (NameError ''io_fits''), snd (mosaic env args (fov opts) s)))"
proof (intro conjI)
  show "\<not> name_bound ''io_fits''" by (rule io_fits_not_bound)
next
  show "outcome env (item0 # map Loaded js) fov_deg w = Inr c \<longrightarrow>
        outcome env (item0 # map Loaded js @ Path p # rest) fov_deg w = Inl (NameError ''io_fits'')"
    by (auto simp: outcome_def mosaic_def andthen_def loop_append loop_path
             simp del: mosaic_loop.simps split: prod.splits sum.splits)
next
  show "Path p \<in> set rest \<longrightarrow> (\<exists>e. outcome env (item0 # rest) fov_deg w = Inl e)"
  proof (cases rule: history_cases[of env item0 fov_deg w rest])
    case (item0_failed e s')
    then show ?thesis by simp
  next
    case (item0_inlined c s1 jts F)
    from item0_inlined(3) show ?thesis by auto
  qed
next
  show "\<forall>q r. Load_file q r \<notin> set (history env itemlist fov_deg w)"
  proof (cases itemlist)
    case Nil
    then show ?thesis by (simp add: run_empty)
  next
    case (Cons i0 rst)
    note il = Cons
    show ?thesis
    proof (cases rule: history_cases[of env i0 fov_deg w rst])
      case (item0_failed e s')
      from item0_failed(1) show ?thesis
        by (cases rule: item0_cases)
           (use item0_failed(2,3) in \<open>auto simp: il init_def resolved_def inlined_later_def split: item.splits\<close>)
    next
      case (item0_inlined c s1 jts F)
      from item0_inlined(1) show ?thesis
        by (cases rule: item0_cases)
           (use item0_inlined(2,3) in \<open>auto simp: il init_def resolved_def inlined_later_def split: item.splits\<close>)
    qed
  qed
next
  show "fst (mosaic env args (fov opts) s) = Inr c \<and> outfile opts = Some path \<and> path \<noteq> [] \<longrightarrow>
        main env opts args s = (Inl (NameError ''io_fits''), snd (mosaic env args (fov opts) s))"
    by (auto simp: main_def andthen_def io_fits_not_bound raise_def split: prod.splits sum.splits)
qed

subsection \<open>Runs that complete\<close>

lemma extractions_append [simp]: "extractions (xs @ ys) = extractions xs @ extractions ys"
  by (induction xs rule: extractions.induct) auto

lemma extractions_inlined_later [simp]: "extractions (inlined_later c jts) = []"
  by (induction jts) (auto simp: inlined_later_def)


subsection \<open>The extractor, the allocator and growth\<close>













section \<open>Runs in the concrete world\<close>

lemmas demo_defs = demo_env_def demo_start_def demo_load_def demo_get_def demo_keywords_def
  demo_header_def extract_wcs_def allocate_def blank_canvas_def demo_create_def demo_has_wcs_def
  demo_inline_def demo_remove_def demo_save_def tile_def no_wcs_def

lemmas run_defs = outcome_def history_def mosaic_def mosaic_item0_def resolve_item0_def
  get_crval_def resolve_item_def andthen_def ret_def raise_def logger_info_def logger_debug_def
  init_def call_load_data_def call_load_file_def call_get_keywords_list_def
  call_get_rotation_and_scale_def call_create_blank_image_def call_mosaic_inline_def
  name_bound_def module_globals_def quoted_def show_nat.simps

lemma demo_two_outcome: "outcome demo_env [Loaded 0, Loaded 1] None demo_start = Inr 3"
  by (simp add: run_defs demo_defs)


lemma demo_fov_outcome: "outcome demo_env [Path ''a.fits'', Loaded 1] (Some 5) demo_start = Inr 4"
  by (simp add: run_defs demo_defs)

lemma demo_fov_history:
  "history demo_env [Path ''a.fits'', Loaded 1] (Some 5) demo_start =
     [Load_data ''a.fits'' (Inr 3),
      Get_keywords_list 3 [''CRVAL1'', ''CRVAL2''] (Inr [10, 20]),
      Get_rotation_and_scale
        [(''CRVAL1'', 10), (''CRVAL2'', 20), (''CDELT1'', - 2), (''CDELT2'', 3), (''CROTA2'', 0)]
        (Inr (0, - 2, 3)),
      Create_blank_image 10 20 (Some 5) 2 0 [- 1, 1] (Inr 4),
      Get_rotation_and_scale
        [(''CRVAL1'', 10), (''CRVAL2'', 20), (''CRPIX1'', 1), (''CRPIX2'', 1),
         (''CDELT1'', - 2), (''CDELT2'', 2), (''CROTA2'', 0)]
        (Inr (0, - 2, 2)),
      Mosaic_inline 4 [3] (Some False) (Inr 1),
      Mosaic_inline 4 [1] None (Inr 2)]"
  by (simp add: run_defs demo_defs)

lemma demo_single_fov_outcome: "outcome demo_env [Loaded 0] (Some 5) demo_start = Inr 3"
  by (simp add: run_defs demo_defs)


lemma demo_broken_outcome:
  "outcome demo_env [Loaded 0, Loaded 2, Loaded 1] (Some 5) demo_start = Inl WcsResolutionError"
  by (simp add: run_defs demo_defs)

lemma demo_broken_calls:
  "inline_calls (history demo_env [Loaded 0, Loaded 2, Loaded 1] (Some 5) demo_start)
     = [(3, [0], Some False), (3, [2], None)]"
  by (simp add: run_defs demo_defs)

lemma demo_path_outcome:
  "outcome demo_env [Loaded 0, Path ''b.fits''] None demo_start = Inl (NameError ''io_fits'')"
  by (simp add: run_defs demo_defs)

lemma demo_path_history:
  "inline_calls (history demo_env [Loaded 0, Path ''b.fits''] None demo_start) = [(3, [0], Some True)]"
  by (simp add: run_defs demo_defs)

lemma demo_path_fov_outcome:
  "outcome demo_env [Loaded 0, Path ''b.fits''] (Some 5) demo_start = Inl (NameError ''io_fits'')"
  by (simp add: run_defs demo_defs)

lemma demo_path_fov_history:
  "inline_calls (history demo_env [Loaded 0, Path ''b.fits''] (Some 5) demo_start)
     = [(3, [0], Some False)]"
  by (simp add: run_defs demo_defs)



theorem expand_flag_only_first_inline_witness:
  "outcome demo_env [Path ''a.fits'', Loaded 1] (Some 5) demo_start = Inr 4
   \<and> inline_flags (history demo_env [Path ''a.fits'', Loaded 1] (Some 5) demo_start) \<noteq> []
   \<and> inline_flags (history demo_env [Path ''a.fits'', Loaded 1] (Some 5) demo_start)
       = Some ((Some 5 :: real option) = None)
         # replicate
             (length (inline_flags (history demo_env [Path ''a.fits'', Loaded 1] (Some 5) demo_start)) - 1)
             None
   \<and> length (inline_flags (history demo_env [Path ''a.fits'', Loaded 1] (Some 5) demo_start))
       = length [Path ''a.fits'', Loaded 1]"
proof -
  have n: "inline_flags (history demo_env [Path ''a.fits'', Loaded 1] (Some 5) demo_start) \<noteq> []"
    unfolding demo_fov_history inline_flags_def by simp
  from expand_flag_only_first_inline[of demo_env "[Path ''a.fits'', Loaded 1]" "Some 5" demo_start]
    n demo_fov_outcome
  show ?thesis by blast
qed

theorem allocator_scale_and_signs_witness:
  "Create_blank_image 10 20 (Some 5) 2 0 [- 1, 1] (Inr 4)
     \<in> set (history demo_env [Path ''a.fits'', Loaded 1] (Some 5) demo_start)
   \<and> (\<exists>image0 w1 L c1 c2.
         resolved demo_env (hd [Path ''a.fits'', Loaded 1]) demo_start image0 w1 L \<and>
         get_rotation_and_scale demo_env (get_header demo_env image0 w1) = Inr (0, c1, c2) \<and>
         (2 :: real) = \<bar>c1\<bar> \<and> [- 1, 1] = [sgn c1, sgn c2])"
proof -
  have a: "Create_blank_image 10 20 (Some 5) 2 0 [- 1, 1] (Inr 4)
     \<in> set (history demo_env [Path ''a.fits'', Loaded 1] (Some 5) demo_start)"
    unfolding demo_fov_history by simp
  from allocator_scale_and_signs[of demo_env "[Path ''a.fits'', Loaded 1]" "Some 5" demo_start] a
  show ?thesis by blast
qed

theorem io_fits_unbound_witness:
  "outcome demo_env (Loaded 0 # map Loaded [1]) None demo_start = Inr 3
   \<and> outcome demo_env (Loaded 0 # map Loaded [1] @ Path ''b.fits'' # [Path ''b.fits'']) None demo_start
       = Inl (NameError ''io_fits'')
   \<and> Path ''b.fits'' \<in> set [Path ''b.fits'']
   \<and> (\<exists>e. outcome demo_env (Loaded 0 # [Path ''b.fits'']) None demo_start = Inl e)
   \<and> fst (mosaic demo_env [Loaded 0, Loaded 1] (fov \<lparr>fov = None, outfile = Some ''out.fits''\<rparr>)
            (init demo_start)) = Inr 3
   \<and> fst (main demo_env \<lparr>fov = None, outfile = Some ''out.fits''\<rparr> [Loaded 0, Loaded 1]
            (init demo_start)) = Inl (NameError ''io_fits'')"
proof -
  have o: "outcome demo_env (Loaded 0 # map Loaded [1]) None demo_start = Inr 3"
    using demo_two_outcome by simp
  have m: "fst (mosaic demo_env [Loaded 0, Loaded 1] (fov \<lparr>fov = None, outfile = Some ''out.fits''\<rparr>)
            (init demo_start)) = Inr 3"
    using demo_two_outcome by (simp add: outcome_def)
  from io_fits_unbound[where env = demo_env and ?item0.0 = "Loaded 0" and js = "[1]"
      and fov_deg = None and w = demo_start and c = 3 and p = "''b.fits''"
      and rest = "[Path ''b.fits'']" and args = "[Loaded 0, Loaded 1]"
      and opts = "\<lparr>fov = None, outfile = Some ''out.fits''\<rparr>" and s = "init demo_start"
      and path = "''out.fits''"] o m
  show ?thesis by simp
qed

theorem mosaic_catches_nothing_witness:
  "outcome demo_env (Loaded 0 # map Loaded [2, 1]) (Some 5) demo_start = Inl WcsResolutionError
   \<and> history demo_env (Loaded 0 # map Loaded [2, 1]) (Some 5) demo_start \<noteq> []
   \<and> failure (last (history demo_env (Loaded 0 # map Loaded [2, 1]) (Some 5) demo_start))
       = Some WcsResolutionError
   \<and> list_all (\<lambda>ev. failure ev = None)
         (butlast (history demo_env (Loaded 0 # map Loaded [2, 1]) (Some 5) demo_start))"
proof -
  have o: "outcome demo_env (Loaded 0 # map Loaded [2, 1]) (Some 5) demo_start
             = Inl WcsResolutionError"
    using demo_broken_outcome by simp
  from mosaic_catches_nothing[of demo_env "Loaded 0" "[2, 1]" "Some 5" demo_start] o
  show ?thesis by (simp add: list_all_iff)
qed

text \<open>
  Claim C1 as it is written fails on the list \<open>[image 0, image 2, image 1]\<close> with a field
  of view of 5 degrees, where image 2 has no resolvable WCS: item 0 resolves, its WCS is
  extracted and, alone, it yields the canvas 3; yet the run does not return a canvas. The
  failure of the second item is fatal, and the third item is never inlined.
\<close>

theorem mosaic_later_failure_counterexample:
  "outcome demo_env [Loaded 0] (Some 5) demo_start = Inr 3
   \<and> outcome demo_env [Loaded 0, Loaded 2, Loaded 1] (Some 5) demo_start = Inl WcsResolutionError
   \<and> inline_calls (history demo_env [Loaded 0, Loaded 2, Loaded 1] (Some 5) demo_start)
       = [(3, [0], Some False), (3, [2], None)]"
  using demo_single_fov_outcome demo_broken_outcome demo_broken_calls by simp




text \<open>
  Claim C2 on the list \<open>[image 0, ''b.fits'']\<close>, without a field of view and with one of
  5 degrees. The file exists and the loader would return object 3 for it, yet the run
  raises \<^verbatim>\<open>NameError\<close>: item 0 is inlined, the second item is neither resolved nor
  inlined.
\<close>

theorem mosaic_path_after_first_item:
  "fst (load_data demo_env ''b.fits'' demo_start) = Inr 3
   \<and> outcome demo_env [Loaded 0, Path ''b.fits''] None demo_start = Inl (NameError ''io_fits'')
   \<and> inline_calls (history demo_env [Loaded 0, Path ''b.fits''] None demo_start)
       = [(3, [0], Some True)]
   \<and> outcome demo_env [Loaded 0, Path ''b.fits''] (Some 5) demo_start = Inl (NameError ''io_fits'')
   \<and> inline_calls (history demo_env [Loaded 0, Path ''b.fits''] (Some 5) demo_start)
       = [(3, [0], Some False)]"
  using demo_path_outcome demo_path_history demo_path_fov_outcome demo_path_fov_history
  by (simp add: demo_defs)

text \<open>
  Claim C10 on the command line \<^verbatim>\<open>-o out.fits a.fits\<close>, without \<^verbatim>\<open>--fov\<close> and with
  \<^verbatim>\<open>--fov 5\<close>. \<open>mosaic\<close> returns the canvas 4, then \<open>main\<close> raises \<^verbatim>\<open>NameError\<close> at
  \<^verbatim>\<open>io_fits.use\<close>: the files on disk are what they were, nothing is removed or written,
  and the exit status is 1.
\<close>

theorem main_output_never_written:
  "outcome demo_env [Path ''a.fits''] None demo_start = Inr 4
   \<and> fst (main demo_env \<lparr>fov = None, outfile = Some ''out.fits''\<rparr> [Path ''a.fits'']
            (init demo_start)) = Inl (NameError ''io_fits'')
   \<and> files (world (snd (main demo_env \<lparr>fov = None, outfile = Some ''out.fits''\<rparr> [Path ''a.fits'']
            (init demo_start)))) = files demo_start
   \<and> exit_status (fst (main demo_env \<lparr>fov = None, outfile = Some ''out.fits''\<rparr> [Path ''a.fits'']
            (init demo_start))) = 1
   \<and> outcome demo_env [Path ''a.fits''] (Some 5) demo_start = Inr 4
   \<and> fst (main demo_env \<lparr>fov = Some 5, outfile = Some ''out.fits''\<rparr> [Path ''a.fits'']
            (init demo_start)) = Inl (NameError ''io_fits'')
   \<and> files (world (snd (main demo_env \<lparr>fov = Some 5, outfile = Some ''out.fits''\<rparr> [Path ''a.fits'']
            (init demo_start)))) = files demo_start
   \<and> exit_status (fst (main demo_env \<lparr>fov = Some 5, outfile = Some ''out.fits''\<rparr> [Path ''a.fits'']
            (init demo_start))) = 1"
  by (simp add: main_def exit_status_def run_defs demo_defs)

section \<open>Properties of the compositor\<close>

lemma inline_append:
  "inline ops c (xs @ ys) ae =
     (case inline ops c xs ae of
        (Inl e, c') \<Rightarrow> (Inl e, c')
      | (Inr recs, c') \<Rightarrow>
          (case inline ops c' ys ae of
             (Inl e, c'') \<Rightarrow> (Inl e, c'')
           | (Inr recs', c'') \<Rightarrow> (Inr (recs @ recs'), c'')))"
  by (induction xs arbitrary: c) (auto split: prod.splits sum.splits)

text \<open>
  Claim C5. With \<^verbatim>\<open>allow_expand\<close> false, an image whose extent does not fit the canvas
  makes the compositor signal \<^verbatim>\<open>OutOfBoundsError\<close> and leaves the canvas, pixels, header
  and placement log, exactly as it was when that image was reached: for the image alone,
  for a call with that single image, and for a call in which images before it were
  placed.
\<close>

theorem inline_out_of_bounds_leaves_canvas:
  assumes "\<not> fits c (sky_to_pixel ops (cv_header c) img) (resample ops (cv_header c) img)"
  shows "inline_image ops False c img = (Inl OutOfBoundsError, c)
       \<and> inline ops c [img] False = (Inl OutOfBoundsError, c)
       \<and> (inline ops c0 pre False = (Inr recs, c) \<longrightarrow>
            inline ops c0 (pre @ img # post) False = (Inl OutOfBoundsError, c))"
proof -
  from assms have one: "inline_image ops False c img = (Inl OutOfBoundsError, c)"
    by (simp add: inline_image_def Let_def)
  then have single: "inline ops c (img # post) False = (Inl OutOfBoundsError, c)" for post
    by simp
  from single[of "[]"] single[of post] one show ?thesis
    by (simp add: inline_append)
qed

lemmas tile_defs = tile_wcs_def blank2_def corner_tile_def inner_tile_def fits_def grid_width_def
  inline_image_def place_def copy_block_def overwrite_row_def grow_def Let_def

lemma inline_inner_tile:
  "inline tile_wcs blank2 [inner_tile] False =
     (Inr [(''u'', (0, 1), False)],
      \<lparr>cv_pixels = [[0, 0], [7, 0]], cv_header = (0, 0), cv_placements = [(''u'', (0, 1), False)]\<rparr>)"
  by (simp add: tile_defs)

lemma inline_corner_tile_expanding:
  "inline tile_wcs blank2 [corner_tile] True =
     (Inr [(''t'', (1, 1), True)],
      \<lparr>cv_pixels = [[0, 0, 0], [0, 5, 5], [0, 5, 5]], cv_header = (0, 0),
         cv_placements = [(''t'', (1, 1), True)]\<rparr>)"
  by (simp add: tile_defs numeral_2_eq_2 numeral_3_eq_3)

theorem inline_out_of_bounds_leaves_canvas_witness:
  "\<not> fits (snd (inline tile_wcs blank2 [inner_tile] False))
        (sky_to_pixel tile_wcs (cv_header (snd (inline tile_wcs blank2 [inner_tile] False))) corner_tile)
        (resample tile_wcs (cv_header (snd (inline tile_wcs blank2 [inner_tile] False))) corner_tile)
   \<and> inline_image tile_wcs False (snd (inline tile_wcs blank2 [inner_tile] False)) corner_tile
       = (Inl OutOfBoundsError, snd (inline tile_wcs blank2 [inner_tile] False))
   \<and> inline tile_wcs blank2 ([inner_tile] @ corner_tile # [inner_tile]) False
       = (Inl OutOfBoundsError,
          \<lparr>cv_pixels = [[0, 0], [7, 0]], cv_header = (0, 0),
             cv_placements = [(''u'', (0, 1), False)]\<rparr>)"
proof -
  have nf: "\<not> fits (snd (inline tile_wcs blank2 [inner_tile] False))
        (sky_to_pixel tile_wcs (cv_header (snd (inline tile_wcs blank2 [inner_tile] False))) corner_tile)
        (resample tile_wcs (cv_header (snd (inline tile_wcs blank2 [inner_tile] False))) corner_tile)"
    unfolding inline_inner_tile by (simp add: tile_defs)
  from inline_out_of_bounds_leaves_canvas[OF nf, of blank2 "[inner_tile]"
      "[(''u'', (0, 1), False)]" "[inner_tile]"] nf
  show ?thesis
    unfolding inline_inner_tile by simp
qed

end
